theory Spec2Isabelle
  imports Main "HOL-Library.AList"
begin

text \<open>
  A model of the home network monitor: a script that loads a list of nodes from a YAML
  file, runs on each node one of three tasks (metrics of the local host, commands over
  SSH, a configuration pushed with Netmiko) under a timer that prints to the console, and
  appends each result to a log of JSON lines.  The functions keep the names they have in
  the script.  Everything the script asks of its libraries and of the operating system is
  a parameter of the model, so that the theorems hold whatever these answer.
\<close>

section \<open>Values, exceptions and the outside world\<close>

text \<open>
  The values \<^verbatim>\<open>yaml.safe_load\<close> builds and the program passes around: None, bool,
  int, float (kept as its printed form), str, list and dict.  A dict is an association
  list in insertion order; a lookup takes the first entry with an equal key.
\<close>

datatype yval =
    YNull
  | YBool bool
  | YInt int
  | YFloat string
  | YStr string
  | YList "yval list"
  | YMap "(yval \<times> yval) list"

text \<open>
  Exceptions carry their class and the text of \<^verbatim>\<open>str(e)\<close>.  Every class below derives
  from Python's \<^verbatim>\<open>Exception\<close>, so \<^verbatim>\<open>except Exception\<close> catches each of them;
  \<^verbatim>\<open>KeyboardInterrupt\<close> and \<^verbatim>\<open>SystemExit\<close> arrive asynchronously and are not modelled.
\<close>

datatype exc_class =
    YAMLError
  | OSError
  | KeyError
  | AttributeError
  | TypeError
  | CalledProcessError
  | SSHException
  | NetMikoTimeoutException
  | NetMikoAuthenticationException
  | UnicodeEncodeError
  | OtherException

datatype exn = Exn (exn_class: exc_class) (exn_str: string)

text \<open>The result record \<^verbatim>\<open>stats\<close>: a dict with string keys.\<close>

type_synonym stats = "(string \<times> yval) list"

text \<open>\<^verbatim>\<open>datetime\<close> objects as returned by \<^verbatim>\<open>datetime.utcnow()\<close> (naive, no offset).\<close>

record datetime =
  year :: nat
  month :: nat
  day :: nat
  hour :: nat
  minute :: nat
  second :: nat
  microsecond :: nat

text \<open>The keyword arguments \<^verbatim>\<open>ConnectHandler(**device)\<close> receives.\<close>

record device =
  device_type :: yval
  host :: yval
  username :: yval
  password :: yval

text \<open>
  What is printed.  The f-strings of the source are kept as structured events: the event
  names the format and carries the values that are interpolated.
\<close>

datatype event =
    Nodes_file_not_found string
  | YAML_error_in string exn
  | Unexpected_error exn
  | Running yval
  | Green_check int
  | Red_cross int
  | Error_processing yval exn

text \<open>
  The program's observable state: the console, the lines of \<^verbatim>\<open>LOG_FILE\<close> (one
  \<^verbatim>\<open>stats\<close> dict per line) and the number of calls made so far to the outside world.
\<close>

record state =
  tick :: nat
  console :: "event list"
  log_file :: "stats list"

text \<open>
  The outside world: every library or system call the program makes answers as a
  function of the arguments and of the number of calls made before it, so that two calls
  with equal arguments may answer differently.  A call that can raise returns the
  exception as a value.  \<open>safe_load\<close> stands for opening the file and parsing it,
  \<open>check_output\<close> for running a command and decoding its output, \<open>write_log\<close> for
  opening the log, serialising the record and writing the line.  The readings of
  \<^verbatim>\<open>time.time()\<close> are integers in a unit left open, in place of floats.  The clocks and
  \<^verbatim>\<open>socket.gethostname()\<close> do not raise.

  \<open>cprint_mark\<close> stands for the \<^verbatim>\<open>cprint\<close> of the timer's closing line.  That line
  starts with the mark U+2705 or U+274C, which is outside ASCII whatever the data are:
  on a standard output whose encoding has no such character (\<^verbatim>\<open>PYTHONIOENCODING=ascii\<close>,
  the C locale) the write raises \<^verbatim>\<open>UnicodeEncodeError\<close> and nothing is printed.  The
  other lines the program prints are ASCII whenever the data they interpolate are, and are
  written without failure.
\<close>

record env =
  path_exists :: "nat \<Rightarrow> string \<Rightarrow> bool"
  safe_load :: "nat \<Rightarrow> string \<Rightarrow> exn + yval"
  time_time :: "nat \<Rightarrow> int"
  gethostname :: "nat \<Rightarrow> string"
  utcnow :: "nat \<Rightarrow> datetime"
  check_output :: "nat \<Rightarrow> string \<Rightarrow> exn + string"
  connect :: "nat \<Rightarrow> yval \<Rightarrow> yval \<Rightarrow> yval \<Rightarrow> exn option"
  exec_command :: "nat \<Rightarrow> yval \<Rightarrow> exn option"
  recv_exit_status :: "nat \<Rightarrow> exn option"
  ConnectHandler :: "nat \<Rightarrow> device \<Rightarrow> exn option"
  send_config_set :: "nat \<Rightarrow> yval \<Rightarrow> exn option"
  save_config :: "nat \<Rightarrow> exn option"
  disconnect :: "nat \<Rightarrow> exn option"
  write_log :: "nat \<Rightarrow> stats \<Rightarrow> exn option"
  cprint_mark :: "nat \<Rightarrow> event \<Rightarrow> exn option"

type_synonym 'a res = "(exn + 'a) \<times> state"

definition called :: "state \<Rightarrow> state" where
  "called st = st\<lparr>tick := Suc (tick st)\<rparr>"

definition emit :: "event \<Rightarrow> state \<Rightarrow> state" where
  "emit ev st = st\<lparr>console := console st @ [ev]\<rparr>"

section \<open>Python operations on values\<close>

fun type_name :: "yval \<Rightarrow> string" where
  "type_name YNull = ''NoneType''"
| "type_name (YBool _) = ''bool''"
| "type_name (YInt _) = ''int''"
| "type_name (YFloat _) = ''float''"
| "type_name (YStr _) = ''str''"
| "type_name (YList _) = ''list''"
| "type_name (YMap _) = ''dict''"

text \<open>\<^verbatim>\<open>obj.get(key, default)\<close>: only a dict has the method.\<close>

definition py_get :: "yval \<Rightarrow> string \<Rightarrow> yval \<Rightarrow> exn + yval" where
  "py_get obj key dflt =
     (case obj of
        YMap m \<Rightarrow> (case map_of m (YStr key) of Some v \<Rightarrow> Inr v | None \<Rightarrow> Inr dflt)
      | _ \<Rightarrow> Inl (Exn AttributeError
                 ([CHR 0x27] @ type_name obj @ [CHR 0x27] @ '' object has no attribute ''
                  @ [CHR 0x27] @ ''get'' @ [CHR 0x27])))"

text \<open>\<^verbatim>\<open>obj[key]\<close> with a string key.\<close>

definition py_getitem :: "yval \<Rightarrow> string \<Rightarrow> exn + yval" where
  "py_getitem obj key =
     (case obj of
        YMap m \<Rightarrow> (case map_of m (YStr key) of
                     Some v \<Rightarrow> Inr v
                   | None \<Rightarrow> Inl (Exn KeyError ([CHR 0x27] @ key @ [CHR 0x27])))
      | _ \<Rightarrow> Inl (Exn TypeError (type_name obj @ '' cannot be indexed by a str'')))"

text \<open>
  \<^verbatim>\<open>for x in obj\<close>: a list gives its elements, a dict its keys, a str its characters;
  nothing else is iterable.
\<close>

definition py_iter :: "yval \<Rightarrow> exn + yval list" where
  "py_iter obj =
     (case obj of
        YList xs \<Rightarrow> Inr xs
      | YMap m \<Rightarrow> Inr (map fst m)
      | YStr s \<Rightarrow> Inr (map (\<lambda>c. YStr [c]) s)
      | _ \<Rightarrow> Inl (Exn TypeError
                 ([CHR 0x27] @ type_name obj @ [CHR 0x27] @ '' object is not iterable'')))"

text \<open>
  \<^verbatim>\<open>s.strip()\<close>, on text whose characters are code points below 256: these are the
  twelve of them for which \<^verbatim>\<open>str.isspace\<close> holds.
\<close>

definition is_space :: "char \<Rightarrow> bool" where
  "is_space c = (c \<in> set [CHR 0x20, CHR 0x09, CHR 0x0A, CHR 0x0B, CHR 0x0C, CHR 0x0D,
                           CHR 0x1C, CHR 0x1D, CHR 0x1E, CHR 0x1F, CHR 0x85, CHR 0xA0])"

definition strip :: "string \<Rightarrow> string" where
  "strip s = rev (dropWhile is_space (rev (dropWhile is_space s)))"

section \<open>Constants\<close>

definition NODES_FILE :: string where
  "NODES_FILE = ''nodes.yaml''"

definition COMMANDS :: "(string \<times> string) list" where
  "COMMANDS =
     [(''hostname'', ''hostname''),
      (''uptime'', ''uptime -p''),
      (''cpu_usage'', ''top -bn1 | grep '' @ [CHR 0x27] @ ''%Cpu'' @ [CHR 0x27] @ '' | awk ''
         @ [CHR 0x27] @ ''{print $2 + $4}'' @ [CHR 0x27]),
      (''memory'', ''free -m | awk '' @ [CHR 0x27] @ ''/Mem:/ {print $2, $3}'' @ [CHR 0x27]),
      (''disk'', ''df -h / | awk '' @ [CHR 0x27] @ ''NR==2 {print $2, $3, $5}'' @ [CHR 0x27]),
      (''ip_address'', ''hostname -I | awk '' @ [CHR 0x27] @ ''{print $1}'' @ [CHR 0x27])]"

section \<open>Sequencing calls that may raise\<close>

text \<open>
  A statement is a function from the state to a result and the next state.  \<open>bnd\<close> runs
  the second statement only when the first did not raise; \<open>ret\<close> is a computation
  without effect (an attribute lookup, an expression); \<open>call\<close> is one call to the
  outside world.
\<close>

definition ret :: "exn + 'a \<Rightarrow> state \<Rightarrow> 'a res" where
  "ret r st = (r, st)"

definition bnd :: "(state \<Rightarrow> 'a res) \<Rightarrow> ('a \<Rightarrow> state \<Rightarrow> 'b res) \<Rightarrow> state \<Rightarrow> 'b res" where
  "bnd m f st = (case m st of (Inl e, st') \<Rightarrow> (Inl e, st') | (Inr v, st') \<Rightarrow> f v st')"

definition call :: "(nat \<Rightarrow> exn option) \<Rightarrow> state \<Rightarrow> unit res" where
  "call f st = (case f (tick st) of Some e \<Rightarrow> (Inl e, called st) | None \<Rightarrow> (Inr (), called st))"

section \<open>Timestamps\<close>

text \<open>
  \<^verbatim>\<open>datetime.isoformat()\<close> of the Python standard library, called with its default
  \<^verbatim>\<open>timespec='auto'\<close> on a naive datetime: \<^verbatim>\<open>YYYY-MM-DDTHH:MM:SS.ffffff\<close> when the
  microsecond field is not 0, and \<^verbatim>\<open>YYYY-MM-DDTHH:MM:SS\<close> when it is 0.  \<open>zfill w n\<close> is
  the format \<^verbatim>\<open>%0wd\<close>.
\<close>

definition digit_char :: "nat \<Rightarrow> char" where
  "digit_char n = char_of (48 + n)"

function dec :: "nat \<Rightarrow> string" where
  "dec n = (if n < 10 then [digit_char n] else dec (n div 10) @ [digit_char (n mod 10)])"
  by pat_completeness auto
termination
  by (relation "measure id") auto

declare dec.simps [simp del]

definition zfill :: "nat \<Rightarrow> nat \<Rightarrow> string" where
  "zfill w n = replicate (w - length (dec n)) (CHR ''0'') @ dec n"

definition isoformat :: "datetime \<Rightarrow> string" where
  "isoformat dt =
     zfill 4 (year dt) @ ''-'' @ zfill 2 (month dt) @ ''-'' @ zfill 2 (day dt) @ ''T''
     @ zfill 2 (hour dt) @ '':'' @ zfill 2 (minute dt) @ '':'' @ zfill 2 (second dt)
     @ (if microsecond dt = 0 then [] else ''.'' @ zfill 6 (microsecond dt))"

text \<open>\<^verbatim>\<open>datetime.utcnow().isoformat() + "Z"\<close>: one call to the clock.\<close>

definition timestamp_now :: "env \<Rightarrow> nat \<Rightarrow> yval" where
  "timestamp_now env t = YStr (isoformat (utcnow env t) @ ''Z'')"

text \<open>
  The number of digits of the fraction of a second in a timestamp: the digits that follow
  the first full stop, none when there is no full stop.
\<close>

definition is_digit :: "char \<Rightarrow> bool" where
  "is_digit c = (48 \<le> (of_char c :: nat) \<and> (of_char c :: nat) \<le> 57)"

definition fraction_digits :: "string \<Rightarrow> nat" where
  "fraction_digits s = length (takeWhile is_digit (drop 1 (dropWhile (\<lambda>c. c \<noteq> CHR ''.'') s)))"

section \<open>Loading the node list\<close>

text \<open>
  The body of the \<^verbatim>\<open>try\<close> in \<^verbatim>\<open>LOAD_NODES\<close>: open and parse the file (one call to
  the outside world), then \<^verbatim>\<open>data.get("nodes", [])\<close>.
\<close>

definition LOAD_NODES_try :: "env \<Rightarrow> string \<Rightarrow> state \<Rightarrow> yval res" where
  "LOAD_NODES_try env file_path st =
     (case safe_load env (tick st) file_path of
        Inl e \<Rightarrow> (Inl e, called st)
      | Inr data \<Rightarrow> (py_get data ''nodes'' (YList []), called st))"

text \<open>
  Both handlers print and return \<^verbatim>\<open>[]\<close>; the second one, \<^verbatim>\<open>except Exception\<close>,
  takes every exception the first did not.
\<close>

definition LOAD_NODES :: "env \<Rightarrow> string \<Rightarrow> state \<Rightarrow> yval res" where
  "LOAD_NODES env file_path st =
     (if \<not> path_exists env (tick st) file_path
      then (Inr (YList []), emit (Nodes_file_not_found file_path) (called st))
      else (case LOAD_NODES_try env file_path (called st) of
              (Inr v, st') \<Rightarrow> (Inr v, st')
            | (Inl e, st') \<Rightarrow>
                (if exn_class e = YAMLError
                 then (Inr (YList []), emit (YAML_error_in file_path e) st')
                 else (Inr (YList []), emit (Unexpected_error e) st'))))"

section \<open>The timer around a task\<close>

text \<open>
  \<^verbatim>\<open>__enter__\<close> reads the clock and prints the running notice.  \<^verbatim>\<open>__exit__\<close> reads
  the clock again and prints the green or the red mark, depending on whether an exception
  is leaving the block.  Printing the mark is a call to the outside world that can raise;
  then nothing is printed and the exception leaves \<^verbatim>\<open>__exit__\<close>.
\<close>

definition TaskTimer_enter :: "env \<Rightarrow> yval \<Rightarrow> state \<Rightarrow> int \<times> state" where
  "TaskTimer_enter env label st = (time_time env (tick st), emit (Running label) (called st))"

definition TaskTimer_exit :: "env \<Rightarrow> int \<Rightarrow> exn option \<Rightarrow> state \<Rightarrow> unit res" where
  "TaskTimer_exit env start_time exc st =
     (let elapsed = time_time env (tick st) - start_time;
          mark = (case exc of None \<Rightarrow> Green_check elapsed | Some _ \<Rightarrow> Red_cross elapsed)
      in (case cprint_mark env (Suc (tick st)) mark of
            None \<Rightarrow> (Inr (), emit mark (called (called st)))
          | Some e \<Rightarrow> (Inl e, called (called st))))"

text \<open>
  The \<^verbatim>\<open>with\<close> statement.  \<^verbatim>\<open>__exit__\<close> runs when the block is left, whichever way.
  It has no \<^verbatim>\<open>return\<close>, so its value is \<^verbatim>\<open>None\<close> and an exception leaving the block
  goes on to the caller.  An exception raised by \<^verbatim>\<open>__exit__\<close> itself is what the caller
  gets: in place of the value of a block that ended normally, in place of the exception
  of a block that raised (which is kept only as its \<^verbatim>\<open>__context__\<close>).
\<close>

definition with_TaskTimer :: "env \<Rightarrow> yval \<Rightarrow> (state \<Rightarrow> 'a res) \<Rightarrow> state \<Rightarrow> 'a res" where
  "with_TaskTimer env label body st =
     (case TaskTimer_enter env label st of
        (start_time, st1) \<Rightarrow>
          (case body st1 of
             (Inr v, st2) \<Rightarrow>
               (case TaskTimer_exit env start_time None st2 of
                  (Inr _, st3) \<Rightarrow> (Inr v, st3)
                | (Inl e', st3) \<Rightarrow> (Inl e', st3))
           | (Inl e, st2) \<Rightarrow>
               (case TaskTimer_exit env start_time (Some e) st2 of
                  (Inr _, st3) \<Rightarrow> (Inl e, st3)
                | (Inl e', st3) \<Rightarrow> (Inl e', st3))))"

section \<open>The three strategies\<close>

subsection \<open>SSH\<close>

text \<open>The \<^verbatim>\<open>for cmd in ...\<close> loop: run the command, wait for its exit status.\<close>

fun exec_all :: "env \<Rightarrow> yval list \<Rightarrow> state \<Rightarrow> unit res" where
  "exec_all env [] st = (Inr (), st)"
| "exec_all env (cmd # cmds) st =
     bnd (call (\<lambda>t. exec_command env t cmd))
       (\<lambda>_. bnd (call (recv_exit_status env)) (\<lambda>_. exec_all env cmds)) st"

text \<open>
  The suite of the \<^verbatim>\<open>try\<close>, up to the assignment of the status.  The three
  subscriptions are evaluated before \<^verbatim>\<open>connect\<close> is called, and raise
  \<^verbatim>\<open>KeyError\<close> inside the \<^verbatim>\<open>try\<close> when a key is missing.
\<close>

definition RUN_SSH_COMMANDS_try :: "env \<Rightarrow> yval \<Rightarrow> state \<Rightarrow> unit res" where
  "RUN_SSH_COMMANDS_try env node =
     bnd (ret (py_getitem node ''HOST_NAME'')) (\<lambda>h.
     bnd (ret (py_getitem node ''USER_NAME'')) (\<lambda>u.
     bnd (ret (py_getitem node ''PASSWORD'')) (\<lambda>p.
     bnd (call (\<lambda>t. connect env t h u p)) (\<lambda>_.
     bnd (ret (py_get node ''COMMANDS'' (YList []))) (\<lambda>cs.
     bnd (ret (py_iter cs)) (\<lambda>cmds.
     exec_all env cmds))))))"

text \<open>
  The whole \<^verbatim>\<open>try ... except ... finally\<close>.  The result holds \<^verbatim>\<open>stats\<close> as it is
  when the statement is left: beside the exception when one is raised again.
  \<^verbatim>\<open>client.close()\<close> runs on both paths; it is one call to the outside world and does
  not raise.  Building the client and setting its host key policy, before the \<^verbatim>\<open>try\<close>,
  touch nothing outside the program.
\<close>

definition RUN_SSH_COMMANDS_stmt ::
    "env \<Rightarrow> yval \<Rightarrow> stats \<Rightarrow> state \<Rightarrow> ((exn \<times> stats) + stats) \<times> state" where
  "RUN_SSH_COMMANDS_stmt env node stats st =
     (case RUN_SSH_COMMANDS_try env node st of
        (Inr _, st1) \<Rightarrow>
          (Inr (AList.update ''status'' (YStr ''success'') stats), called st1)
      | (Inl e, st1) \<Rightarrow>
          (Inl (e, AList.update ''status'' (YStr (''fail: '' @ exn_str e)) stats), called st1))"

definition RUN_SSH_COMMANDS :: "env \<Rightarrow> yval \<Rightarrow> state \<Rightarrow> stats res" where
  "RUN_SSH_COMMANDS env node =
     bnd (ret (py_get node ''HOST_NAME'' (YStr ''SSH Node''))) (\<lambda>label.
     with_TaskTimer env label
       (bnd (ret (py_get node ''HOST_NAME'' (YStr ''unknown''))) (\<lambda>h st.
          (case RUN_SSH_COMMANDS_stmt env node
                  [(''host'', h), (''timestamp'', timestamp_now env (tick st))] (called st) of
             (Inr stats, st') \<Rightarrow> (Inr stats, st')
           | (Inl (e, _), st') \<Rightarrow> (Inl e, st')))))"

subsection \<open>Netmiko\<close>

text \<open>
  The same shape without a \<^verbatim>\<open>finally\<close>.  The \<^verbatim>\<open>except\<close> clause names two Netmiko
  classes and \<^verbatim>\<open>Exception\<close>, so it takes every exception.  The four values of
  \<^verbatim>\<open>device\<close> are read with \<^verbatim>\<open>node.get\<close>, whose default is \<^verbatim>\<open>None\<close>.
\<close>

definition RUN_NETMIKO_CONFIG_try :: "env \<Rightarrow> yval \<Rightarrow> device \<Rightarrow> state \<Rightarrow> unit res" where
  "RUN_NETMIKO_CONFIG_try env node dev =
     bnd (call (\<lambda>t. ConnectHandler env t dev)) (\<lambda>_.
     bnd (ret (py_get node ''CONFIG_COMMANDS'' (YList []))) (\<lambda>cs.
     bnd (call (\<lambda>t. send_config_set env t cs)) (\<lambda>_.
     bnd (call (save_config env)) (\<lambda>_.
     call (disconnect env)))))"

definition RUN_NETMIKO_CONFIG_stmt ::
    "env \<Rightarrow> yval \<Rightarrow> device \<Rightarrow> stats \<Rightarrow> state \<Rightarrow> ((exn \<times> stats) + stats) \<times> state" where
  "RUN_NETMIKO_CONFIG_stmt env node dev stats st =
     (case RUN_NETMIKO_CONFIG_try env node dev st of
        (Inr _, st1) \<Rightarrow> (Inr (AList.update ''status'' (YStr ''success'') stats), st1)
      | (Inl e, st1) \<Rightarrow>
          (Inl (e, AList.update ''status'' (YStr (''fail: '' @ exn_str e)) stats), st1))"

definition RUN_NETMIKO_CONFIG :: "env \<Rightarrow> yval \<Rightarrow> state \<Rightarrow> stats res" where
  "RUN_NETMIKO_CONFIG env node =
     bnd (ret (py_get node ''HOST_NAME'' (YStr ''Netmiko Node''))) (\<lambda>label.
     with_TaskTimer env label
       (bnd (ret (py_get node ''DEVICE_TYPE'' YNull)) (\<lambda>dt.
        bnd (ret (py_get node ''HOST_NAME'' YNull)) (\<lambda>hn.
        bnd (ret (py_get node ''USER_NAME'' YNull)) (\<lambda>un.
        bnd (ret (py_get node ''PASSWORD'' YNull)) (\<lambda>pw.
        bnd (ret (py_get node ''HOST_NAME'' (YStr ''unknown''))) (\<lambda>h st.
          (case RUN_NETMIKO_CONFIG_stmt env node
                  \<lparr>device_type = dt, host = hn, username = un, password = pw\<rparr>
                  [(''host'', h), (''timestamp'', timestamp_now env (tick st))] (called st) of
             (Inr stats, st') \<Rightarrow> (Inr stats, st')
           | (Inl (e, _), st') \<Rightarrow> (Inl e, st')))))))))"

subsection \<open>Local\<close>

text \<open>
  The loop over \<^verbatim>\<open>COMMANDS.items()\<close>, with its \<^verbatim>\<open>try\<close> around each command.
  \<open>check_output\<close> answers with the decoded output of the command or with the exception
  that running or decoding it raised.
\<close>

fun collect :: "env \<Rightarrow> (string \<times> string) list \<Rightarrow> stats \<Rightarrow> state \<Rightarrow> stats \<times> state" where
  "collect env [] stats st = (stats, st)"
| "collect env ((key, cmd) # rest) stats st =
     (case check_output env (tick st) cmd of
        Inr out \<Rightarrow> collect env rest (AList.update key (YStr (strip out)) stats) (called st)
      | Inl e \<Rightarrow>
          collect env rest (AList.update key (YStr (''Error: '' @ exn_str e)) stats) (called st))"

text \<open>The suite of the \<^verbatim>\<open>with\<close> statement, up to \<^verbatim>\<open>return stats\<close>.\<close>

definition RUN_LOCAL_body :: "env \<Rightarrow> state \<Rightarrow> stats res" where
  "RUN_LOCAL_body env st =
     (case collect env COMMANDS
             [(''host'', YStr (gethostname env (tick st))),
              (''timestamp'', timestamp_now env (Suc (tick st)))]
             (called (called st)) of
        (stats, st') \<Rightarrow> (Inr (AList.update ''status'' (YStr ''success'') stats), st'))"

definition RUN_LOCAL :: "env \<Rightarrow> state \<Rightarrow> stats res" where
  "RUN_LOCAL env = with_TaskTimer env (YStr ''Localhost'') (RUN_LOCAL_body env)"

section \<open>The log and the main loop\<close>

text \<open>
  \<^verbatim>\<open>save_log\<close>: opening the file, \<^verbatim>\<open>json.dumps\<close> and the write are one call to the
  outside world, which either raises or appends the line.
\<close>

definition save_log :: "env \<Rightarrow> stats \<Rightarrow> state \<Rightarrow> unit res" where
  "save_log env stats st =
     (case write_log env (tick st) stats of
        Some e \<Rightarrow> (Inl e, called st)
      | None \<Rightarrow> (Inr (), (called st)\<lparr>log_file := log_file st @ [stats]\<rparr>))"

text \<open>The \<^verbatim>\<open>if ... elif ... else\<close> of \<^verbatim>\<open>main\<close> that picks and runs a strategy.\<close>

definition main_strategy :: "env \<Rightarrow> yval \<Rightarrow> state \<Rightarrow> stats res" where
  "main_strategy env node =
     bnd (ret (py_get node ''DEVICE_TYPE'' YNull)) (\<lambda>k.
       if k = YStr ''local'' then RUN_LOCAL env
       else bnd (ret (py_get node ''DEVICE_TYPE'' YNull)) (\<lambda>k'.
         if k' = YStr ''ssh'' then RUN_SSH_COMMANDS env node
         else RUN_NETMIKO_CONFIG env node))"

text \<open>The suite of the \<^verbatim>\<open>try\<close> in the loop of \<^verbatim>\<open>main\<close>.\<close>

definition main_try :: "env \<Rightarrow> yval \<Rightarrow> stats list \<Rightarrow> state \<Rightarrow> stats list res" where
  "main_try env node all_stats =
     bnd (main_strategy env node) (\<lambda>stat.
     bnd (save_log env stat) (\<lambda>_.
     ret (Inr (all_stats @ [stat]))))"

text \<open>
  One turn of the loop.  The handler calls \<^verbatim>\<open>node.get('HOST_NAME')\<close> itself, outside
  any \<^verbatim>\<open>try\<close>: an exception there leaves \<^verbatim>\<open>main\<close>.
\<close>

definition main_node :: "env \<Rightarrow> yval \<Rightarrow> stats list \<Rightarrow> state \<Rightarrow> stats list res" where
  "main_node env node all_stats st =
     (case main_try env node all_stats st of
        (Inr all_stats', st1) \<Rightarrow> (Inr all_stats', st1)
      | (Inl e, st1) \<Rightarrow>
          (case py_get node ''HOST_NAME'' YNull of
             Inl e' \<Rightarrow> (Inl e', st1)
           | Inr h \<Rightarrow> (Inr all_stats, emit (Error_processing h e) st1)))"

fun main_loop :: "env \<Rightarrow> yval list \<Rightarrow> stats list \<Rightarrow> state \<Rightarrow> stats list res" where
  "main_loop env [] all_stats st = (Inr all_stats, st)"
| "main_loop env (node # nodes) all_stats st =
     (case main_node env node all_stats st of
        (Inl e, st1) \<Rightarrow> (Inl e, st1)
      | (Inr all_stats', st1) \<Rightarrow> main_loop env nodes all_stats' st1)"

text \<open>
  \<^verbatim>\<open>main\<close> returns nothing in the source; here it returns \<^verbatim>\<open>all_stats\<close> as it is when
  the loop ends, so that it can be observed.
\<close>

definition main :: "env \<Rightarrow> state \<Rightarrow> stats list res" where
  "main env =
     bnd (LOAD_NODES env NODES_FILE) (\<lambda>nodes.
     bnd (ret (py_iter nodes)) (\<lambda>ns.
     main_loop env ns []))"

section \<open>Example worlds\<close>

text \<open>
  A starting state, and a world in which every call succeeds: the node file lists one
  local node, every command prints \<^verbatim>\<open> ok \<close>, and the clock stands at noon.  The
  examples below change one answer of this world at a time.
\<close>

definition st0 :: state where
  "st0 = \<lparr>tick = 0, console = [], log_file = []\<rparr>"

definition noon :: datetime where
  "noon = \<lparr>year = 2024, month = 3, day = 9, hour = 12, minute = 0, second = 0,
            microsecond = 0\<rparr>"

definition quiet_world :: env where
  "quiet_world =
     \<lparr>path_exists = (\<lambda>t p. True),
      safe_load = (\<lambda>t p. Inr (YMap [(YStr ''nodes'',
                                       YList [YMap [(YStr ''DEVICE_TYPE'', YStr ''local'')]])])),
      time_time = (\<lambda>t. int t),
      gethostname = (\<lambda>t. ''pi1''),
      utcnow = (\<lambda>t. noon),
      check_output = (\<lambda>t cmd. Inr '' ok ''),
      connect = (\<lambda>t h u p. None),
      exec_command = (\<lambda>t cmd. None),
      recv_exit_status = (\<lambda>t. None),
      ConnectHandler = (\<lambda>t d. None),
      send_config_set = (\<lambda>t cs. None),
      save_config = (\<lambda>t. None),
      disconnect = (\<lambda>t. None),
      write_log = (\<lambda>t s. None),
      cprint_mark = (\<lambda>t ev. None)\<rparr>"



text \<open>
  Two remote nodes, a world in which no SSH connection can be made, the state that the
  failed attempt on \<^verbatim>\<open>pi2\<close> leaves, and the results the two nodes give in the quiet
  world.
\<close>

definition pi2_fields :: "(yval \<times> yval) list" where
  "pi2_fields =
     [(YStr ''HOST_NAME'', YStr ''pi2''), (YStr ''DEVICE_TYPE'', YStr ''ssh''),
      (YStr ''USER_NAME'', YStr ''pi''), (YStr ''PASSWORD'', YStr ''raspberry''),
      (YStr ''COMMANDS'', YList [YStr ''uptime''])]"

definition sw1_fields :: "(yval \<times> yval) list" where
  "sw1_fields =
     [(YStr ''HOST_NAME'', YStr ''sw1''), (YStr ''DEVICE_TYPE'', YStr ''cisco_ios''),
      (YStr ''USER_NAME'', YStr ''admin''), (YStr ''PASSWORD'', YStr ''cisco''),
      (YStr ''CONFIG_COMMANDS'', YList [YStr ''ntp server 10.0.0.1''])]"

definition no_route :: exn where
  "no_route = Exn OSError ''[Errno 113] No route to host''"

definition unreachable_world :: env where
  "unreachable_world = quiet_world\<lparr>connect := \<lambda>t h u p. Some no_route\<rparr>"

definition pi2_failed :: state where
  "pi2_failed = \<lparr>tick = 6, console = [Running (YStr ''pi2''), Red_cross 4], log_file = []\<rparr>"

definition pi2_stats :: stats where
  "pi2_stats = [(''host'', YStr ''pi2''), (''timestamp'', timestamp_now quiet_world 1),
                (''status'', YStr ''success'')]"

definition sw1_stats :: stats where
  "sw1_stats = [(''host'', YStr ''sw1''), (''timestamp'', timestamp_now quiet_world 10),
                (''status'', YStr ''success'')]"

text \<open>
  A world in which the switch never answers \<^verbatim>\<open>save_config\<close>, the exception that
  raises, and the keyword arguments built for \<^verbatim>\<open>sw1\<close>.
\<close>

definition sw1_stuck :: env where
  "sw1_stuck =
     quiet_world\<lparr>save_config := \<lambda>t. Some (Exn NetMikoTimeoutException ''Pattern not detected'')\<rparr>"

definition config_timeout :: exn where
  "config_timeout = Exn NetMikoTimeoutException ''Pattern not detected''"

definition sw1_device :: device where
  "sw1_device = \<lparr>device_type = YStr ''cisco_ios'', host = YStr ''sw1'',
                  username = YStr ''admin'', password = YStr ''cisco''\<rparr>"




text \<open>A world whose clock reads a quarter of a second past noon, plus one microsecond a call.\<close>

definition ticking_clock :: env where
  "ticking_clock = quiet_world\<lparr>utcnow := \<lambda>t. noon\<lparr>microsecond := 250000 + t\<rparr>\<rparr>"

section \<open>Node loading: properties\<close>

lemma LOAD_NODES_cases:
  "fst (LOAD_NODES env p st) =
     (if \<not> path_exists env (tick st) p then Inr (YList [])
      else (case safe_load env (Suc (tick st)) p of
              Inl e \<Rightarrow> Inr (YList [])
            | Inr (YMap m) \<Rightarrow>
                (case map_of m (YStr ''nodes'') of Some v \<Rightarrow> Inr v | None \<Rightarrow> Inr (YList []))
            | Inr _ \<Rightarrow> Inr (YList [])))"
  by (simp add: LOAD_NODES_def LOAD_NODES_try_def py_get_def called_def
           split: sum.splits yval.splits option.splits prod.splits)



text \<open>
  Claim C10.  On an existing file, \<^verbatim>\<open>LOAD_NODES\<close> returns the empty list when the
  content parses to \<^verbatim>\<open>None\<close> and when it parses to a mapping without the key
  \<^verbatim>\<open>nodes\<close>; when the key is there, its value is returned unchanged, whatever it is.
\<close>

theorem LOAD_NODES_shapes:
  "path_exists env (tick st) p \<Longrightarrow>
     (safe_load env (Suc (tick st)) p = Inr YNull \<longrightarrow> fst (LOAD_NODES env p st) = Inr (YList []))
   \<and> (safe_load env (Suc (tick st)) p = Inr (YMap m) \<and> map_of m (YStr ''nodes'') = None \<longrightarrow>
        fst (LOAD_NODES env p st) = Inr (YList []))
   \<and> (safe_load env (Suc (tick st)) p = Inr (YMap m) \<and> map_of m (YStr ''nodes'') = Some v \<longrightarrow>
        fst (LOAD_NODES env p st) = Inr v)"
  by (simp add: LOAD_NODES_cases)

theorem LOAD_NODES_shapes_witness:
  "path_exists (quiet_world\<lparr>safe_load := \<lambda>t p. Inr (YMap [(YStr ''nodes'', YStr ''pi1'')])\<rparr>) (tick st0) NODES_FILE
   \<and> fst (LOAD_NODES (quiet_world\<lparr>safe_load := \<lambda>t p. Inr (YMap [(YStr ''nodes'', YStr ''pi1'')])\<rparr>)
             NODES_FILE st0) = Inr (YStr ''pi1'')
   \<and> fst (LOAD_NODES (quiet_world\<lparr>safe_load := \<lambda>t p. Inr YNull\<rparr>) NODES_FILE st0) = Inr (YList [])
   \<and> fst (LOAD_NODES (quiet_world\<lparr>safe_load := \<lambda>t p. Inr (YMap [(YStr ''hosts'', YList [])])\<rparr>)
             NODES_FILE st0) = Inr (YList [])"
  using
    LOAD_NODES_shapes [of "quiet_world\<lparr>safe_load := \<lambda>t p. Inr (YMap [(YStr ''nodes'', YStr ''pi1'')])\<rparr>"
                          st0 NODES_FILE "[(YStr ''nodes'', YStr ''pi1'')]" "YStr ''pi1''"]
    LOAD_NODES_shapes [of "quiet_world\<lparr>safe_load := \<lambda>t p. Inr YNull\<rparr>" st0 NODES_FILE "[]" YNull]
    LOAD_NODES_shapes [of "quiet_world\<lparr>safe_load := \<lambda>t p. Inr (YMap [(YStr ''hosts'', YList [])])\<rparr>"
                          st0 NODES_FILE "[(YStr ''hosts'', YList [])]" YNull]
  by (simp add: quiet_world_def st0_def)

section \<open>Sequencing: rewriting rules\<close>

lemma bnd_ret_Inr: "bnd (ret (Inr v)) f st = f v st"
  by (simp add: bnd_def ret_def)

lemma bnd_ret_Inl: "bnd (ret (Inl e)) f st = (Inl e, st)"
  by (simp add: bnd_def ret_def)

lemma py_get_YMap:
  "py_get (YMap m) key dflt = Inr (case map_of m (YStr key) of Some v \<Rightarrow> v | None \<Rightarrow> dflt)"
  by (simp add: py_get_def split: option.splits)

lemma py_get_not_YMap: "(\<forall>m. node \<noteq> YMap m) \<Longrightarrow> \<exists>e. py_get node key dflt = Inl e"
  by (cases node) (simp_all add: py_get_def)

section \<open>The timer: properties\<close>

lemma with_TaskTimer_Inr:
  "with_TaskTimer env label body st = (Inr v, st') \<Longrightarrow>
     \<exists>st2. body (snd (TaskTimer_enter env label st)) = (Inr v, st2)"
  by (auto simp: with_TaskTimer_def split: prod.splits sum.splits)





section \<open>Choosing the strategy\<close>

text \<open>
  Claim C3.  For a node that is a mapping, the strategy run depends on the value of
  \<^verbatim>\<open>DEVICE_TYPE\<close> alone: \<^verbatim>\<open>"local"\<close> runs \<^verbatim>\<open>RUN_LOCAL\<close>, \<^verbatim>\<open>"ssh"\<close> runs
  \<^verbatim>\<open>RUN_SSH_COMMANDS\<close>, and every other value, a missing key included, runs
  \<^verbatim>\<open>RUN_NETMIKO_CONFIG\<close>.
\<close>

theorem main_strategy_classifies:
  "main_strategy env (YMap m) st =
     (if map_of m (YStr ''DEVICE_TYPE'') = Some (YStr ''local'') then RUN_LOCAL env st
      else if map_of m (YStr ''DEVICE_TYPE'') = Some (YStr ''ssh'')
           then RUN_SSH_COMMANDS env (YMap m) st
           else RUN_NETMIKO_CONFIG env (YMap m) st)"
  by (simp add: main_strategy_def py_get_YMap bnd_ret_Inr split: option.splits)

theorem main_strategy_classifies_witness:
  "main_strategy quiet_world (YMap [(YStr ''DEVICE_TYPE'', YStr ''toaster'')]) st0
     = RUN_NETMIKO_CONFIG quiet_world (YMap [(YStr ''DEVICE_TYPE'', YStr ''toaster'')]) st0
   \<and> main_strategy quiet_world (YMap [(YStr ''HOST_NAME'', YStr ''sw1'')]) st0
     = RUN_NETMIKO_CONFIG quiet_world (YMap [(YStr ''HOST_NAME'', YStr ''sw1'')]) st0
   \<and> main_strategy quiet_world (YMap [(YStr ''DEVICE_TYPE'', YStr ''ssh'')]) st0
     = RUN_SSH_COMMANDS quiet_world (YMap [(YStr ''DEVICE_TYPE'', YStr ''ssh'')]) st0
   \<and> main_strategy quiet_world (YMap [(YStr ''DEVICE_TYPE'', YStr ''local'')]) st0
     = RUN_LOCAL quiet_world st0"
  using
    main_strategy_classifies [of quiet_world "[(YStr ''DEVICE_TYPE'', YStr ''toaster'')]" st0]
    main_strategy_classifies [of quiet_world "[(YStr ''HOST_NAME'', YStr ''sw1'')]" st0]
    main_strategy_classifies [of quiet_world "[(YStr ''DEVICE_TYPE'', YStr ''ssh'')]" st0]
    main_strategy_classifies [of quiet_world "[(YStr ''DEVICE_TYPE'', YStr ''local'')]" st0]
  by simp

section \<open>The local strategy: properties\<close>

lemma collect_other:
  "k \<notin> fst ` set cmds \<Longrightarrow> map_of (fst (collect env cmds stats st)) k = map_of stats k"
proof (induction cmds arbitrary: stats st)
  case Nil
  then show ?case by simp
next
  case (Cons c cmds)
  obtain key cmd where c: "c = (key, cmd)" by (cases c)
  from Cons.prems c have "k \<noteq> key" and "k \<notin> fst ` set cmds" by auto
  then show ?case
    using Cons.IH by (simp add: c update_conv' split: sum.splits)
qed






section \<open>The strategies leave the log alone\<close>

lemma log_called: "log_file (called st) = log_file st"
  by (simp add: called_def)

lemma log_emit: "log_file (emit ev st) = log_file st"
  by (simp add: emit_def)

lemma log_ret: "log_file (snd (ret r st)) = log_file st"
  by (simp add: ret_def)

lemma log_call: "log_file (snd (call f st)) = log_file st"
  by (simp add: call_def log_called split: option.splits)

lemma log_bnd:
  assumes "\<And>s. log_file (snd (m s)) = log_file s"
    and "\<And>v s. log_file (snd (f v s)) = log_file s"
  shows "log_file (snd (bnd m f st)) = log_file st"
proof (cases "m st")
  case (Pair r st')
  with assms(1) [of st] have same: "log_file st' = log_file st" by simp
  show ?thesis
  proof (cases r)
    case (Inl e)
    with Pair same show ?thesis by (simp add: bnd_def)
  next
    case (Inr v)
    with Pair same assms(2) [of v st'] show ?thesis by (simp add: bnd_def)
  qed
qed

lemma log_with_TaskTimer:
  assumes "\<And>s. log_file (snd (body s)) = log_file s"
  shows "log_file (snd (with_TaskTimer env label body st)) = log_file st"
proof -
  let ?st1 = "emit (Running label) (called st)"
  obtain r st2 where b: "body ?st1 = (r, st2)" by (cases "body ?st1")
  with assms [of ?st1] have "log_file st2 = log_file st"
    by (simp add: log_emit log_called)
  with b show ?thesis
    by (simp add: with_TaskTimer_def TaskTimer_enter_def TaskTimer_exit_def Let_def log_emit
          log_called split: sum.splits option.splits)
qed

lemma log_exec_all: "log_file (snd (exec_all env cmds st)) = log_file st"
proof (induction cmds arbitrary: st)
  case Nil
  show ?case by simp
next
  case (Cons cmd cmds)
  show ?case
    unfolding exec_all.simps
    by (intro log_bnd log_call Cons.IH)
qed

lemma log_collect: "log_file (snd (collect env cmds stats st)) = log_file st"
proof (induction cmds arbitrary: stats st)
  case Nil
  show ?case by simp
next
  case (Cons c cmds)
  obtain key cmd where c: "c = (key, cmd)" by (cases c)
  show ?case
    by (simp add: c Cons.IH log_called split: sum.splits)
qed

lemma log_RUN_SSH_COMMANDS_try: "log_file (snd (RUN_SSH_COMMANDS_try env node st)) = log_file st"
  unfolding RUN_SSH_COMMANDS_try_def
  by (intro log_bnd log_ret log_call log_exec_all)

lemma log_RUN_SSH_COMMANDS_stmt:
  "log_file (snd (RUN_SSH_COMMANDS_stmt env node stats st)) = log_file st"
  using log_RUN_SSH_COMMANDS_try [of env node st]
  by (auto simp: RUN_SSH_COMMANDS_stmt_def log_called split: prod.splits sum.splits)

lemma log_RUN_SSH_COMMANDS: "log_file (snd (RUN_SSH_COMMANDS env node st)) = log_file st"
proof -
  have inner: "log_file (snd ((case RUN_SSH_COMMANDS_stmt env node stats (called s) of
             (Inr stats', st') \<Rightarrow> (Inr stats', st')
           | (Inl (e, _), st') \<Rightarrow> (Inl e, st')) :: stats res)) = log_file s" for stats s
    using log_RUN_SSH_COMMANDS_stmt [of env node stats "called s"]
    by (auto simp: log_called split: prod.splits sum.splits)
  show ?thesis
    unfolding RUN_SSH_COMMANDS_def
    by (intro log_bnd log_ret log_with_TaskTimer inner)
qed

lemma log_RUN_NETMIKO_CONFIG_try:
  "log_file (snd (RUN_NETMIKO_CONFIG_try env node dev st)) = log_file st"
  unfolding RUN_NETMIKO_CONFIG_try_def
  by (intro log_bnd log_ret log_call)

lemma log_RUN_NETMIKO_CONFIG_stmt:
  "log_file (snd (RUN_NETMIKO_CONFIG_stmt env node dev stats st)) = log_file st"
  using log_RUN_NETMIKO_CONFIG_try [of env node dev st]
  by (auto simp: RUN_NETMIKO_CONFIG_stmt_def split: prod.splits sum.splits)

lemma log_RUN_NETMIKO_CONFIG: "log_file (snd (RUN_NETMIKO_CONFIG env node st)) = log_file st"
proof -
  have inner: "log_file (snd ((case RUN_NETMIKO_CONFIG_stmt env node dev stats (called s) of
             (Inr stats', st') \<Rightarrow> (Inr stats', st')
           | (Inl (e, _), st') \<Rightarrow> (Inl e, st')) :: stats res)) = log_file s" for dev stats s
    using log_RUN_NETMIKO_CONFIG_stmt [of env node dev stats "called s"]
    by (auto simp: log_called split: prod.splits sum.splits)
  show ?thesis
    unfolding RUN_NETMIKO_CONFIG_def
    by (intro log_bnd log_ret log_with_TaskTimer inner)
qed

lemma log_RUN_LOCAL: "log_file (snd (RUN_LOCAL env st)) = log_file st"
proof -
  have inner: "log_file (snd (RUN_LOCAL_body env s)) = log_file s" for s
    using log_collect [of env COMMANDS
             "[(''host'', YStr (gethostname env (tick s))),
               (''timestamp'', timestamp_now env (Suc (tick s)))]" "called (called s)"]
    by (auto simp: RUN_LOCAL_body_def log_called split: prod.splits)
  show ?thesis
    unfolding RUN_LOCAL_def
    by (intro log_with_TaskTimer inner)
qed

lemma log_main_strategy: "log_file (snd (main_strategy env node st)) = log_file st"
proof -
  have second: "log_file (snd (bnd (ret (py_get node ''DEVICE_TYPE'' YNull)) (\<lambda>k'.
         if k' = YStr ''ssh'' then RUN_SSH_COMMANDS env node
         else RUN_NETMIKO_CONFIG env node) s)) = log_file s" for s
    by (intro log_bnd log_ret) (simp add: log_RUN_SSH_COMMANDS log_RUN_NETMIKO_CONFIG)
  show ?thesis
    unfolding main_strategy_def
    by (intro log_bnd log_ret) (simp add: log_RUN_LOCAL second)
qed

section \<open>The main loop: properties\<close>

lemma main_strategy_not_YMap:
  "(\<forall>m. node \<noteq> YMap m) \<Longrightarrow> \<exists>e. main_strategy env node st = (Inl e, st)"
  by (cases node) (simp_all add: main_strategy_def py_get_def bnd_def ret_def)

text \<open>One turn of the loop, by the outcome of the strategy and of the write to the log.\<close>

lemma main_node_raised:
  "main_strategy env node st = (Inl e, st1) \<Longrightarrow>
     main_node env node all_stats st =
       (case py_get node ''HOST_NAME'' YNull of
          Inl e' \<Rightarrow> (Inl e', st1)
        | Inr h \<Rightarrow> (Inr all_stats, emit (Error_processing h e) st1))"
  by (simp add: main_node_def main_try_def bnd_def)

lemma main_node_returned:
  "main_strategy env node st = (Inr stat, st1) \<Longrightarrow>
     main_node env node all_stats st =
       (case write_log env (tick st1) stat of
          None \<Rightarrow> (Inr (all_stats @ [stat]), (called st1)\<lparr>log_file := log_file st1 @ [stat]\<rparr>)
        | Some e \<Rightarrow>
            (case py_get node ''HOST_NAME'' YNull of
               Inl e' \<Rightarrow> (Inl e', called st1)
             | Inr h \<Rightarrow> (Inr all_stats, emit (Error_processing h e) (called st1))))"
  by (simp add: main_node_def main_try_def bnd_def ret_def save_log_def split: option.splits)

text \<open>
  A node that is not a mapping has no \<^verbatim>\<open>get\<close>: the lookup of \<^verbatim>\<open>DEVICE_TYPE\<close>
  raises, and so does the lookup of \<^verbatim>\<open>HOST_NAME\<close> in the handler, which nothing catches.
\<close>

lemma main_node_not_YMap:
  assumes "\<forall>m. node \<noteq> YMap m"
  shows "\<exists>e. main_node env node all_stats st = (Inl e, st)"
proof -
  from main_strategy_not_YMap [OF assms] obtain e
    where "main_strategy env node st = (Inl e, st)" by blast
  moreover from py_get_not_YMap [OF assms] obtain e'
    where "py_get node ''HOST_NAME'' YNull = Inl e'" by blast
  ultimately show ?thesis
    by (simp add: main_node_raised)
qed







text \<open>Running the model on the example nodes.\<close>

lemmas run_defs =
  main_strategy_def RUN_SSH_COMMANDS_def RUN_SSH_COMMANDS_stmt_def RUN_SSH_COMMANDS_try_def
  RUN_NETMIKO_CONFIG_def RUN_NETMIKO_CONFIG_stmt_def RUN_NETMIKO_CONFIG_try_def
  with_TaskTimer_def TaskTimer_enter_def TaskTimer_exit_def
  bnd_def ret_def call_def called_def emit_def py_get_def py_getitem_def py_iter_def
  main_node_def main_try_def save_log_def timestamp_now_def Let_def

lemmas world_defs =
  quiet_world_def unreachable_world_def st0_def pi2_fields_def sw1_fields_def
  pi2_failed_def pi2_stats_def sw1_stats_def

lemma pi2_unreachable:
  "main_strategy unreachable_world (YMap pi2_fields) st0 = (Inl no_route, pi2_failed)"
  by (simp add: run_defs world_defs)







text \<open>
  Claim C9.  When the strategy of a node raises, nothing is appended to the log and
  nothing to \<^verbatim>\<open>all_stats\<close> for that node.  The only line a turn of the loop can add to
  the log is the result that the strategy returned.
\<close>

theorem failing_strategy_leaves_no_record:
  "(main_strategy env node st = (Inl e, st1) \<longrightarrow>
      log_file (snd (main_node env node all_stats st)) = log_file st
      \<and> (\<forall>all_stats'. fst (main_node env node all_stats st) = Inr all_stats' \<longrightarrow>
            all_stats' = all_stats)
      \<and> (\<forall>m. node = YMap m \<longrightarrow> fst (main_node env node all_stats st) = Inr all_stats))
   \<and> (log_file (snd (main_node env node all_stats st)) \<noteq> log_file st \<longrightarrow>
        (\<exists>stat st2. main_strategy env node st = (Inr stat, st2)
           \<and> log_file (snd (main_node env node all_stats st)) = log_file st @ [stat]
           \<and> fst (main_node env node all_stats st) = Inr (all_stats @ [stat])))"
proof (intro conjI impI)
  assume raised: "main_strategy env node st = (Inl e, st1)"
  with log_main_strategy [of env node st] have same: "log_file st1 = log_file st" by simp
  show "log_file (snd (main_node env node all_stats st)) = log_file st"
    using same by (simp add: main_node_raised [OF raised] log_emit split: sum.splits)
  show "\<forall>all_stats'. fst (main_node env node all_stats st) = Inr all_stats' \<longrightarrow>
            all_stats' = all_stats"
    by (simp add: main_node_raised [OF raised] split: sum.splits)
  show "\<forall>m. node = YMap m \<longrightarrow> fst (main_node env node all_stats st) = Inr all_stats"
    using raised by (auto simp: main_node_raised py_get_YMap)
next
  assume changed: "log_file (snd (main_node env node all_stats st)) \<noteq> log_file st"
  obtain r st2 where run: "main_strategy env node st = (r, st2)"
    by (cases "main_strategy env node st")
  with log_main_strategy [of env node st] have same: "log_file st2 = log_file st" by simp
  show "\<exists>stat st2. main_strategy env node st = (Inr stat, st2)
           \<and> log_file (snd (main_node env node all_stats st)) = log_file st @ [stat]
           \<and> fst (main_node env node all_stats st) = Inr (all_stats @ [stat])"
  proof (cases r)
    case (Inl e')
    with run same changed show ?thesis
      by (simp add: main_node_raised log_emit split: sum.splits)
  next
    case (Inr stat)
    with run same changed show ?thesis
      by (auto simp: main_node_returned log_emit log_called split: sum.splits option.splits)
  qed
qed

theorem failing_strategy_leaves_no_record_witness:
  "main_strategy unreachable_world (YMap pi2_fields) st0 = (Inl no_route, pi2_failed)
   \<and> log_file (snd (main_node unreachable_world (YMap pi2_fields) [] st0)) = log_file st0
   \<and> fst (main_node unreachable_world (YMap pi2_fields) [] st0) = Inr []
   \<and> log_file (snd (main_node quiet_world (YMap pi2_fields) [] st0)) \<noteq> log_file st0
   \<and> (\<exists>stat st2. main_strategy quiet_world (YMap pi2_fields) st0 = (Inr stat, st2)
         \<and> log_file (snd (main_node quiet_world (YMap pi2_fields) [] st0)) = log_file st0 @ [stat]
         \<and> fst (main_node quiet_world (YMap pi2_fields) [] st0) = Inr ([] @ [stat]))"
proof -
  have changed: "log_file (snd (main_node quiet_world (YMap pi2_fields) [] st0)) \<noteq> log_file st0"
    by (simp add: run_defs world_defs)
  from failing_strategy_leaves_no_record
         [of unreachable_world "YMap pi2_fields" st0 no_route pi2_failed "[]"]
       pi2_unreachable
  have quiet: "log_file (snd (main_node unreachable_world (YMap pi2_fields) [] st0)) = log_file st0
     \<and> fst (main_node unreachable_world (YMap pi2_fields) [] st0) = Inr []"
    by blast
  from failing_strategy_leaves_no_record
         [of quiet_world "YMap pi2_fields" st0 no_route pi2_failed "[]"]
       changed
  have logged: "\<exists>stat st2. main_strategy quiet_world (YMap pi2_fields) st0 = (Inr stat, st2)
         \<and> log_file (snd (main_node quiet_world (YMap pi2_fields) [] st0)) = log_file st0 @ [stat]
         \<and> fst (main_node quiet_world (YMap pi2_fields) [] st0) = Inr ([] @ [stat])"
    by blast
  from pi2_unreachable quiet changed logged show ?thesis by blast
qed

section \<open>The remote strategies: properties\<close>




section \<open>Timestamps: properties\<close>

text \<open>Rules that compute \<open>isoformat\<close> on a given reading of the clock.\<close>

lemma digit_char_simps:
  "digit_char 0 = CHR ''0''" "digit_char (Suc 0) = CHR ''1''" "digit_char 2 = CHR ''2''"
  "digit_char 3 = CHR ''3''" "digit_char 4 = CHR ''4''" "digit_char 5 = CHR ''5''"
  "digit_char 6 = CHR ''6''" "digit_char 7 = CHR ''7''" "digit_char 8 = CHR ''8''"
  "digit_char 9 = CHR ''9''"
  by (simp_all add: digit_char_def char_of_def bit_Suc_0_iff)

lemma dec_small: "n < 10 \<Longrightarrow> dec n = [digit_char n]"
  by (simp add: dec.simps [of n])

lemma dec_large: "\<not> n < 10 \<Longrightarrow> dec n = dec (n div 10) @ [digit_char (n mod 10)]"
  by (simp add: dec.simps [of n])

lemma replicate_numeral: "replicate (numeral k) x = x # replicate (pred_numeral k) x"
  by (simp add: numeral_eq_Suc)

lemmas iso_eval =
  isoformat_def zfill_def dec_small dec_large digit_char_simps replicate_numeral

lemma noon_Z: "timestamp_now quiet_world t = YStr ''2024-03-09T12:00:00Z''"
  by (simp add: timestamp_now_def quiet_world_def noon_def iso_eval)

lemma local_run:
  "RUN_LOCAL quiet_world st0 =
     (Inr [(''host'', YStr ''pi1''), (''timestamp'', YStr ''2024-03-09T12:00:00Z''),
           (''hostname'', YStr ''ok''), (''uptime'', YStr ''ok''), (''cpu_usage'', YStr ''ok''),
           (''memory'', YStr ''ok''), (''disk'', YStr ''ok''), (''ip_address'', YStr ''ok''),
           (''status'', YStr ''success'')],
      \<lparr>tick = 11, console = [Running (YStr ''Localhost''), Green_check 9], log_file = []\<rparr>)"
  by (simp add: RUN_LOCAL_def RUN_LOCAL_body_def with_TaskTimer_def TaskTimer_enter_def noon_Z)
     (simp add: TaskTimer_exit_def called_def emit_def COMMANDS_def strip_def is_space_def
        quiet_world_def st0_def)

text \<open>The digits \<open>zfill\<close> prints, and how many.\<close>

lemma is_digit_digit_char: "k < 10 \<Longrightarrow> is_digit (digit_char k)"
  by (simp add: is_digit_def digit_char_def)

lemma dec_digits: "c \<in> set (dec n) \<Longrightarrow> is_digit c"
proof (induction n rule: dec.induct)
  case (1 n)
  show ?case
  proof (cases "n < 10")
    case True
    with "1.prems" show ?thesis
      by (simp add: dec_small is_digit_digit_char)
  next
    case False
    with "1.prems" "1.IH" show ?thesis
      by (auto simp: dec_large is_digit_digit_char)
  qed
qed

lemma dec_length: "0 < k \<Longrightarrow> n < 10 ^ k \<Longrightarrow> length (dec n) \<le> k"
proof (induction n arbitrary: k rule: dec.induct)
  case (1 n)
  show ?case
  proof (cases "n < 10")
    case True
    with "1.prems" show ?thesis
      by (simp add: dec_small)
  next
    case False
    with "1.prems" obtain j where k: "k = Suc j"
      by (cases k) auto
    with False "1.prems" have j: "0 < j"
      by (cases j) auto
    from "1.prems" k have "n div 10 < 10 ^ j"
      by (simp add: less_mult_imp_div_less mult.commute)
    from "1.IH" [OF False j this] False k show ?thesis
      by (simp add: dec_large)
  qed
qed

lemma is_digit_zero: "is_digit CHR ''0''"
  by (simp add: is_digit_def)

lemma zfill_digits: "c \<in> set (zfill w n) \<Longrightarrow> is_digit c"
  by (auto simp: zfill_def is_digit_zero dest: dec_digits)

lemma zfill_length: "0 < w \<Longrightarrow> n < 10 ^ w \<Longrightarrow> length (zfill w n) = w"
  using dec_length [of w n] by (simp add: zfill_def)

lemma not_digit: "\<not> is_digit CHR ''.''" "\<not> is_digit CHR ''Z''"
  by (simp_all add: is_digit_def)

lemma zfill_no_stop: "c \<in> set (zfill w n) \<Longrightarrow> c \<noteq> CHR ''.''"
  using zfill_digits not_digit by blast

lemma fraction_digits_isoformat:
  assumes "microsecond dt < 1000000"
  shows "fraction_digits (isoformat dt @ ''Z'') = (if microsecond dt = 0 then 0 else 6)"
proof -
  let ?date = "zfill 4 (year dt) @ ''-'' @ zfill 2 (month dt) @ ''-'' @ zfill 2 (day dt) @ ''T''
     @ zfill 2 (hour dt) @ '':'' @ zfill 2 (minute dt) @ '':'' @ zfill 2 (second dt)"
  have no_stop: "c \<in> set ?date \<Longrightarrow> c \<noteq> CHR ''.''" for c
    using zfill_no_stop by auto
  show ?thesis
  proof (cases "microsecond dt = 0")
    case True
    then have iso: "isoformat dt @ ''Z'' = ?date @ ''Z''"
      by (simp add: isoformat_def)
    have "dropWhile (\<lambda>c. c \<noteq> CHR ''.'') (?date @ ''Z'') = dropWhile (\<lambda>c. c \<noteq> CHR ''.'') ''Z''"
      by (rule dropWhile_append2) (rule no_stop)
    with True show ?thesis
      unfolding fraction_digits_def iso by simp
  next
    case False
    let ?frac = "zfill 6 (microsecond dt)"
    from False have iso: "isoformat dt @ ''Z'' = ?date @ (''.'' @ ?frac @ ''Z'')"
      by (simp add: isoformat_def)
    have "dropWhile (\<lambda>c. c \<noteq> CHR ''.'') (?date @ (''.'' @ ?frac @ ''Z''))
            = dropWhile (\<lambda>c. c \<noteq> CHR ''.'') (''.'' @ ?frac @ ''Z'')"
      by (rule dropWhile_append2) (rule no_stop)
    then have "drop 1 (dropWhile (\<lambda>c. c \<noteq> CHR ''.'') (isoformat dt @ ''Z'')) = ?frac @ ''Z''"
      unfolding iso by simp
    moreover have "takeWhile is_digit (?frac @ ''Z'') = ?frac"
      using zfill_digits [of _ 6 "microsecond dt"] not_digit(2)
      by (simp add: takeWhile_append2)
    moreover from assms have "length ?frac = 6"
      using zfill_length [of 6 "microsecond dt"] by simp
    ultimately show ?thesis
      using False by (simp add: fraction_digits_def)
  qed
qed

text \<open>The timestamp each strategy stores is the one it read when it built \<^verbatim>\<open>stats\<close>.\<close>

lemma RUN_LOCAL_timestamp:
  assumes "RUN_LOCAL env st = (Inr stats, st')"
  shows "map_of stats ''timestamp'' = Some (timestamp_now env (tick st + 2))"
proof -
  let ?st1 = "snd (TaskTimer_enter env (YStr ''Localhost'') st)"
  let ?init = "[(''host'', YStr (gethostname env (tick ?st1))),
                (''timestamp'', timestamp_now env (Suc (tick ?st1)))]"
  obtain stats1 st2 where run: "collect env COMMANDS ?init (called (called ?st1)) = (stats1, st2)"
    by (cases "collect env COMMANDS ?init (called (called ?st1))")
  from assms obtain st3 where "RUN_LOCAL_body env ?st1 = (Inr stats, st3)"
    unfolding RUN_LOCAL_def
    using with_TaskTimer_Inr [where body = "RUN_LOCAL_body env" and env = env
            and label = "YStr ''Localhost''" and st = st and v = stats and st' = st']
    by blast
  with run have stats: "stats = AList.update ''status'' (YStr ''success'') stats1"
    by (simp add: RUN_LOCAL_body_def)
  have "''timestamp'' \<notin> fst ` set COMMANDS"
    by (simp add: COMMANDS_def)
  from collect_other [OF this, of env ?init "called (called ?st1)"] run
  have "map_of stats1 ''timestamp'' = Some (timestamp_now env (Suc (tick ?st1)))"
    by simp
  then show ?thesis
    by (simp add: stats update_conv' TaskTimer_enter_def called_def emit_def)
qed

lemma RUN_SSH_COMMANDS_timestamp:
  assumes "RUN_SSH_COMMANDS env node st = (Inr stats, st')"
  shows "map_of stats ''timestamp'' = Some (timestamp_now env (tick st + 1))"
proof (cases "\<exists>m. node = YMap m")
  case True
  then obtain m where node: "node = YMap m" by blast
  let ?label = "case map_of m (YStr ''HOST_NAME'') of Some v \<Rightarrow> v | None \<Rightarrow> YStr ''SSH Node''"
  let ?st1 = "snd (TaskTimer_enter env ?label st)"
  obtain r st2 where "RUN_SSH_COMMANDS_try env (YMap m) (called ?st1) = (r, st2)"
    by (cases "RUN_SSH_COMMANDS_try env (YMap m) (called ?st1)")
  with assms node show ?thesis
    by (cases r)
       (auto simp: RUN_SSH_COMMANDS_def RUN_SSH_COMMANDS_stmt_def with_TaskTimer_def
          TaskTimer_enter_def TaskTimer_exit_def Let_def bnd_ret_Inr py_get_YMap update_conv'
          called_def emit_def split: option.splits)
next
  case False
  then obtain e where "py_get node ''HOST_NAME'' (YStr ''SSH Node'') = Inl e"
    using py_get_not_YMap by blast
  with assms show ?thesis
    by (simp add: RUN_SSH_COMMANDS_def bnd_ret_Inl)
qed

lemma RUN_NETMIKO_CONFIG_timestamp:
  assumes "RUN_NETMIKO_CONFIG env node st = (Inr stats, st')"
  shows "map_of stats ''timestamp'' = Some (timestamp_now env (tick st + 1))"
proof (cases "\<exists>m. node = YMap m")
  case True
  then obtain m where node: "node = YMap m" by blast
  let ?label = "case map_of m (YStr ''HOST_NAME'') of Some v \<Rightarrow> v | None \<Rightarrow> YStr ''Netmiko Node''"
  let ?dev = "\<lparr>device_type = (case map_of m (YStr ''DEVICE_TYPE'') of Some v \<Rightarrow> v | None \<Rightarrow> YNull),
               host = (case map_of m (YStr ''HOST_NAME'') of Some v \<Rightarrow> v | None \<Rightarrow> YNull),
               username = (case map_of m (YStr ''USER_NAME'') of Some v \<Rightarrow> v | None \<Rightarrow> YNull),
               password = (case map_of m (YStr ''PASSWORD'') of Some v \<Rightarrow> v | None \<Rightarrow> YNull)\<rparr>"
  let ?st1 = "snd (TaskTimer_enter env ?label st)"
  obtain r st2 where "RUN_NETMIKO_CONFIG_try env (YMap m) ?dev (called ?st1) = (r, st2)"
    by (cases "RUN_NETMIKO_CONFIG_try env (YMap m) ?dev (called ?st1)")
  with assms node show ?thesis
    by (cases r)
       (auto simp: RUN_NETMIKO_CONFIG_def RUN_NETMIKO_CONFIG_stmt_def with_TaskTimer_def
          TaskTimer_enter_def TaskTimer_exit_def Let_def bnd_ret_Inr py_get_YMap update_conv'
          called_def emit_def split: option.splits)
next
  case False
  then obtain e where "py_get node ''HOST_NAME'' (YStr ''Netmiko Node'') = Inl e"
    using py_get_not_YMap by blast
  with assms show ?thesis
    by (simp add: RUN_NETMIKO_CONFIG_def bnd_ret_Inl)
qed

lemma ticking_Z:
  "timestamp_now ticking_clock 1 = YStr ''2024-03-09T12:00:00.250001Z''"
  "timestamp_now ticking_clock 2 = YStr ''2024-03-09T12:00:00.250002Z''"
  by (simp_all add: timestamp_now_def ticking_clock_def quiet_world_def noon_def iso_eval)

lemma ticking_ssh_run:
  "RUN_SSH_COMMANDS ticking_clock (YMap pi2_fields) st0 =
     (Inr [(''host'', YStr ''pi2''), (''timestamp'', YStr ''2024-03-09T12:00:00.250001Z''),
           (''status'', YStr ''success'')],
      \<lparr>tick = 8, console = [Running (YStr ''pi2''), Green_check 6], log_file = []\<rparr>)"
proof -
  have "RUN_SSH_COMMANDS ticking_clock (YMap pi2_fields) st0 =
     (Inr [(''host'', YStr ''pi2''), (''timestamp'', timestamp_now ticking_clock 1),
           (''status'', YStr ''success'')],
      \<lparr>tick = 8, console = [Running (YStr ''pi2''), Green_check 6], log_file = []\<rparr>)"
    by (simp add: run_defs world_defs ticking_clock_def)
  then show ?thesis by (simp only: ticking_Z)
qed

lemma ticking_netmiko_run:
  "RUN_NETMIKO_CONFIG ticking_clock (YMap sw1_fields) st0 =
     (Inr [(''host'', YStr ''sw1''), (''timestamp'', YStr ''2024-03-09T12:00:00.250001Z''),
           (''status'', YStr ''success'')],
      \<lparr>tick = 8, console = [Running (YStr ''sw1''), Green_check 6], log_file = []\<rparr>)"
proof -
  have "RUN_NETMIKO_CONFIG ticking_clock (YMap sw1_fields) st0 =
     (Inr [(''host'', YStr ''sw1''), (''timestamp'', timestamp_now ticking_clock 1),
           (''status'', YStr ''success'')],
      \<lparr>tick = 8, console = [Running (YStr ''sw1''), Green_check 6], log_file = []\<rparr>)"
    by (simp add: run_defs world_defs ticking_clock_def)
  then show ?thesis by (simp only: ticking_Z)
qed

lemma RUN_SSH_COMMANDS_stmt_timestamp:
  "fst (RUN_SSH_COMMANDS_stmt env node stats0 st) = Inl (e, stats) \<Longrightarrow>
     map_of stats ''timestamp'' = map_of stats0 ''timestamp''"
  by (auto simp: RUN_SSH_COMMANDS_stmt_def update_conv' split: prod.splits sum.splits)

lemma RUN_NETMIKO_CONFIG_stmt_timestamp:
  "fst (RUN_NETMIKO_CONFIG_stmt env node dev stats0 st) = Inl (e, stats) \<Longrightarrow>
     map_of stats ''timestamp'' = map_of stats0 ''timestamp''"
  by (auto simp: RUN_NETMIKO_CONFIG_stmt_def update_conv' split: prod.splits sum.splits)

lemma unreachable_stmt:
  "fst (RUN_SSH_COMMANDS_stmt unreachable_world (YMap pi2_fields)
          [(''host'', YStr ''pi2''), (''timestamp'', YStr ''2024-03-09T12:00:00Z'')]
          \<lparr>tick = 2, console = [Running (YStr ''pi2'')], log_file = []\<rparr>)
     = Inl (no_route, [(''host'', YStr ''pi2''), (''timestamp'', YStr ''2024-03-09T12:00:00Z''),
                       (''status'', YStr ''fail: [Errno 113] No route to host'')])"
  by (simp add: run_defs world_defs no_route_def)

lemma stuck_stmt:
  "fst (RUN_NETMIKO_CONFIG_stmt sw1_stuck (YMap sw1_fields) sw1_device
          [(''host'', YStr ''sw1''), (''timestamp'', YStr ''2024-03-09T12:00:00Z'')]
          \<lparr>tick = 2, console = [Running (YStr ''sw1'')], log_file = []\<rparr>)
     = Inl (config_timeout, [(''host'', YStr ''sw1''), (''timestamp'', YStr ''2024-03-09T12:00:00Z''),
                       (''status'', YStr ''fail: Pattern not detected'')])"
  by (simp add: run_defs world_defs sw1_stuck_def config_timeout_def)

text \<open>
  Claim C8, as the code has it.  The \<^verbatim>\<open>timestamp\<close> of a result returned by any of the
  three strategies is \<^verbatim>\<open>datetime.utcnow().isoformat()\<close> followed by \<^verbatim>\<open>Z\<close>, and a
  result that a remote strategy has built when it raises still has the timestamp it was
  built with.  That text has six digits for the fraction of the second when the
  microsecond field of the reading is not 0, and none when it is 0: \<^verbatim>\<open>isoformat\<close>
  leaves the fraction out then.
\<close>

theorem timestamp_is_isoformat_Z:
  "(RUN_LOCAL env st = (Inr stats, st') \<longrightarrow>
      map_of stats ''timestamp'' = Some (YStr (isoformat (utcnow env (tick st + 2)) @ ''Z'')))
   \<and> (RUN_SSH_COMMANDS env node st = (Inr stats, st') \<longrightarrow>
      map_of stats ''timestamp'' = Some (YStr (isoformat (utcnow env (tick st + 1)) @ ''Z'')))
   \<and> (RUN_NETMIKO_CONFIG env node st = (Inr stats, st') \<longrightarrow>
      map_of stats ''timestamp'' = Some (YStr (isoformat (utcnow env (tick st + 1)) @ ''Z'')))
   \<and> (fst (RUN_SSH_COMMANDS_stmt env node stats0 st) = Inl (e, stats) \<longrightarrow>
      map_of stats ''timestamp'' = map_of stats0 ''timestamp'')
   \<and> (fst (RUN_NETMIKO_CONFIG_stmt env node dev stats0 st) = Inl (e, stats) \<longrightarrow>
      map_of stats ''timestamp'' = map_of stats0 ''timestamp'')
   \<and> (microsecond dt < 1000000 \<longrightarrow>
      fraction_digits (isoformat dt @ ''Z'') = (if microsecond dt = 0 then 0 else 6))"
  using RUN_LOCAL_timestamp [of env st stats st']
    RUN_SSH_COMMANDS_timestamp [of env node st stats st']
    RUN_NETMIKO_CONFIG_timestamp [of env node st stats st']
    RUN_SSH_COMMANDS_stmt_timestamp [of env node stats0 st e stats]
    RUN_NETMIKO_CONFIG_stmt_timestamp [of env node dev stats0 st e stats]
    fraction_digits_isoformat [of dt]
  by (simp add: timestamp_now_def)

theorem timestamp_is_isoformat_Z_witness:
  "RUN_LOCAL quiet_world st0 =
     (Inr [(''host'', YStr ''pi1''), (''timestamp'', YStr ''2024-03-09T12:00:00Z''),
           (''hostname'', YStr ''ok''), (''uptime'', YStr ''ok''), (''cpu_usage'', YStr ''ok''),
           (''memory'', YStr ''ok''), (''disk'', YStr ''ok''), (''ip_address'', YStr ''ok''),
           (''status'', YStr ''success'')],
      \<lparr>tick = 11, console = [Running (YStr ''Localhost''), Green_check 9], log_file = []\<rparr>)
   \<and> YStr ''2024-03-09T12:00:00Z'' = YStr (isoformat (utcnow quiet_world (tick st0 + 2)) @ ''Z'')
   \<and> RUN_SSH_COMMANDS ticking_clock (YMap pi2_fields) st0 =
     (Inr [(''host'', YStr ''pi2''), (''timestamp'', YStr ''2024-03-09T12:00:00.250001Z''),
           (''status'', YStr ''success'')],
      \<lparr>tick = 8, console = [Running (YStr ''pi2''), Green_check 6], log_file = []\<rparr>)
   \<and> YStr ''2024-03-09T12:00:00.250001Z''
       = YStr (isoformat (utcnow ticking_clock (tick st0 + 1)) @ ''Z'')
   \<and> RUN_NETMIKO_CONFIG ticking_clock (YMap sw1_fields) st0 =
     (Inr [(''host'', YStr ''sw1''), (''timestamp'', YStr ''2024-03-09T12:00:00.250001Z''),
           (''status'', YStr ''success'')],
      \<lparr>tick = 8, console = [Running (YStr ''sw1''), Green_check 6], log_file = []\<rparr>)
   \<and> fst (RUN_SSH_COMMANDS_stmt unreachable_world (YMap pi2_fields)
          [(''host'', YStr ''pi2''), (''timestamp'', YStr ''2024-03-09T12:00:00Z'')]
          \<lparr>tick = 2, console = [Running (YStr ''pi2'')], log_file = []\<rparr>)
       = Inl (no_route, [(''host'', YStr ''pi2''), (''timestamp'', YStr ''2024-03-09T12:00:00Z''),
                         (''status'', YStr ''fail: [Errno 113] No route to host'')])
   \<and> fst (RUN_NETMIKO_CONFIG_stmt sw1_stuck (YMap sw1_fields) sw1_device
          [(''host'', YStr ''sw1''), (''timestamp'', YStr ''2024-03-09T12:00:00Z'')]
          \<lparr>tick = 2, console = [Running (YStr ''sw1'')], log_file = []\<rparr>)
       = Inl (config_timeout, [(''host'', YStr ''sw1''), (''timestamp'', YStr ''2024-03-09T12:00:00Z''),
                         (''status'', YStr ''fail: Pattern not detected'')])
   \<and> map_of [(''host'', YStr ''pi2''), (''timestamp'', YStr ''2024-03-09T12:00:00Z''),
              (''status'', YStr ''fail: [Errno 113] No route to host'')] ''timestamp''
       = map_of [(''host'', YStr ''pi2''), (''timestamp'', YStr ''2024-03-09T12:00:00Z'')] ''timestamp''
   \<and> map_of [(''host'', YStr ''sw1''), (''timestamp'', YStr ''2024-03-09T12:00:00Z''),
              (''status'', YStr ''fail: Pattern not detected'')] ''timestamp''
       = map_of [(''host'', YStr ''sw1''), (''timestamp'', YStr ''2024-03-09T12:00:00Z'')] ''timestamp''
   \<and> microsecond (utcnow ticking_clock 1) < 1000000
   \<and> fraction_digits (isoformat (utcnow ticking_clock 1) @ ''Z'') = 6
   \<and> microsecond noon < 1000000
   \<and> fraction_digits (isoformat noon @ ''Z'') = 0"
proof -
  have small: "microsecond (utcnow ticking_clock 1) < 1000000" "microsecond noon < 1000000"
    and zero: "microsecond noon = 0" "microsecond (utcnow ticking_clock 1) \<noteq> 0"
    by (simp_all add: ticking_clock_def quiet_world_def noon_def)
  note loc = timestamp_is_isoformat_Z [of quiet_world st0 _ _ YNull _ _ sw1_device noon,
      THEN conjunct1, rule_format, OF local_run]
  note ssh = timestamp_is_isoformat_Z [of ticking_clock st0 _ _ "YMap pi2_fields" _ _ sw1_device noon,
      THEN conjunct2, THEN conjunct1, rule_format, OF ticking_ssh_run]
  note net = timestamp_is_isoformat_Z [of ticking_clock st0 _ _ "YMap sw1_fields" _ _ sw1_device noon,
      THEN conjunct2, THEN conjunct2, THEN conjunct1, rule_format, OF ticking_netmiko_run]
  note ssh_failed = timestamp_is_isoformat_Z [where dev = sw1_device and dt = noon and st' = st0,
      THEN conjunct2, THEN conjunct2, THEN conjunct2, THEN conjunct1, rule_format,
      OF unreachable_stmt]
  note net_failed = timestamp_is_isoformat_Z [where dt = noon and st' = st0,
      THEN conjunct2, THEN conjunct2, THEN conjunct2, THEN conjunct2, THEN conjunct1, rule_format,
      OF stuck_stmt]
  note frac = timestamp_is_isoformat_Z [where dt = "utcnow ticking_clock 1" and env = ticking_clock
      and st = st0 and st' = st0 and stats = "[]" and stats0 = "[]" and node = YNull
      and dev = sw1_device and e = no_route,
      THEN conjunct2, THEN conjunct2, THEN conjunct2, THEN conjunct2, THEN conjunct2, rule_format,
      OF small(1)]
  note frac0 = timestamp_is_isoformat_Z [where dt = noon and env = ticking_clock
      and st = st0 and st' = st0 and stats = "[]" and stats0 = "[]" and node = YNull
      and dev = sw1_device and e = no_route,
      THEN conjunct2, THEN conjunct2, THEN conjunct2, THEN conjunct2, THEN conjunct2, rule_format,
      OF small(2)]
  from loc have a: "YStr ''2024-03-09T12:00:00Z''
      = YStr (isoformat (utcnow quiet_world (tick st0 + 2)) @ ''Z'')"
    by simp
  from ssh have b: "YStr ''2024-03-09T12:00:00.250001Z''
      = YStr (isoformat (utcnow ticking_clock (tick st0 + 1)) @ ''Z'')"
    by simp
  from net have b': "YStr ''2024-03-09T12:00:00.250001Z''
      = YStr (isoformat (utcnow ticking_clock (tick st0 + 1)) @ ''Z'')"
    by simp
  from frac zero(2) have c: "fraction_digits (isoformat (utcnow ticking_clock 1) @ ''Z'') = 6"
    by simp
  from frac0 zero(1) have d: "fraction_digits (isoformat noon @ ''Z'') = 0"
    by simp
  from local_run a ticking_ssh_run b b' ticking_netmiko_run unreachable_stmt stuck_stmt
    ssh_failed net_failed small c d
  show ?thesis
    by blast
qed

text \<open>
  The claim as the specification states it, that every timestamp has a precision of a
  millisecond or better, fails on a reading of the clock that falls on a whole second: the
  timestamp of the result then has no digit after the seconds.
\<close>

theorem timestamp_precision_counterexample:
  "RUN_LOCAL quiet_world st0 =
     (Inr [(''host'', YStr ''pi1''), (''timestamp'', YStr ''2024-03-09T12:00:00Z''),
           (''hostname'', YStr ''ok''), (''uptime'', YStr ''ok''), (''cpu_usage'', YStr ''ok''),
           (''memory'', YStr ''ok''), (''disk'', YStr ''ok''), (''ip_address'', YStr ''ok''),
           (''status'', YStr ''success'')],
      \<lparr>tick = 11, console = [Running (YStr ''Localhost''), Green_check 9], log_file = []\<rparr>)
   \<and> \<not> 3 \<le> fraction_digits ''2024-03-09T12:00:00Z''"
proof -
  have "fraction_digits ''2024-03-09T12:00:00Z'' = 0"
    by (simp add: fraction_digits_def is_digit_def)
  with local_run show ?thesis by simp
qed

end
